theory Spec2Isabelle
  imports Complex_Main "HOL-Library.Monad_Syntax"
begin

section \<open>JavaScript values used by the dashboard\<close>

text \<open>
  A JavaScript \<open>number\<close>. A finite double is represented by the real number it denotes
  (the two zeros are one value); the three special values are kept apart because the
  comparisons and the division of the source treat them differently.

  The exact result of an arithmetic operation on finite numbers is rounded by the
  platform to the nearest double, and becomes an infinity when it is out of range. This
  rounding is a parameter \<open>toDouble\<close> of the arithmetic operations.
\<close>

datatype number = Finite real | PosInfinity | NegInfinity | NaN

type_synonym rounding = "real \<Rightarrow> number"

text \<open>\<open>a > b\<close> on numbers: false as soon as one side is \<open>NaN\<close>.\<close>

fun js_gt :: "number \<Rightarrow> number \<Rightarrow> bool" where
  "js_gt NaN _ = False"
| "js_gt _ NaN = False"
| "js_gt (Finite a) (Finite b) = (a > b)"
| "js_gt PosInfinity PosInfinity = False"
| "js_gt PosInfinity _ = True"
| "js_gt NegInfinity _ = False"
| "js_gt (Finite a) NegInfinity = True"
| "js_gt (Finite a) PosInfinity = False"

text \<open>\<open>a !== b\<close> on numbers: \<open>NaN\<close> is different from everything, itself included.\<close>

fun js_strict_neq :: "number \<Rightarrow> number \<Rightarrow> bool" where
  "js_strict_neq NaN _ = True"
| "js_strict_neq _ NaN = True"
| "js_strict_neq a b = (a \<noteq> b)"

text \<open>\<open>a - b\<close>, \<open>a * b\<close> and \<open>a / b\<close> on numbers.\<close>

fun js_neg :: "number \<Rightarrow> number" where
  "js_neg (Finite a) = Finite (- a)"
| "js_neg PosInfinity = NegInfinity"
| "js_neg NegInfinity = PosInfinity"
| "js_neg NaN = NaN"

fun js_add :: "rounding \<Rightarrow> number \<Rightarrow> number \<Rightarrow> number" where
  "js_add toDouble NaN _ = NaN"
| "js_add toDouble _ NaN = NaN"
| "js_add toDouble (Finite a) (Finite b) = toDouble (a + b)"
| "js_add toDouble PosInfinity NegInfinity = NaN"
| "js_add toDouble NegInfinity PosInfinity = NaN"
| "js_add toDouble PosInfinity _ = PosInfinity"
| "js_add toDouble NegInfinity _ = NegInfinity"
| "js_add toDouble (Finite a) b = b"

definition js_sub :: "rounding \<Rightarrow> number \<Rightarrow> number \<Rightarrow> number" where
  "js_sub toDouble a b = js_add toDouble a (js_neg b)"

text \<open>The sign of a number: \<open>None\<close> for \<open>NaN\<close>, otherwise \<open>-1\<close>, \<open>0\<close> or \<open>1\<close>.\<close>

fun js_sign :: "number \<Rightarrow> int option" where
  "js_sign NaN = None"
| "js_sign PosInfinity = Some 1"
| "js_sign NegInfinity = Some (- 1)"
| "js_sign (Finite a) = Some (if a < 0 then - 1 else if a = 0 then 0 else 1)"

definition signed_infinity :: "int \<Rightarrow> number" where
  "signed_infinity s = (if s < 0 then NegInfinity else PosInfinity)"

fun js_mul :: "rounding \<Rightarrow> number \<Rightarrow> number \<Rightarrow> number" where
  "js_mul toDouble (Finite a) (Finite b) = toDouble (a * b)"
| "js_mul toDouble a b =
     (case (js_sign a, js_sign b) of
        (Some s, Some t) \<Rightarrow> if s * t = 0 then NaN else signed_infinity (s * t)
      | _ \<Rightarrow> NaN)"

text \<open>
  Division. A finite non-zero number divided by zero is an infinity and \<open>0 / 0\<close> is
  \<open>NaN\<close>; the model has a single zero, so the infinity takes the sign of the dividend.
\<close>

fun js_div :: "rounding \<Rightarrow> number \<Rightarrow> number \<Rightarrow> number" where
  "js_div toDouble NaN _ = NaN"
| "js_div toDouble _ NaN = NaN"
| "js_div toDouble (Finite a) (Finite b) =
     (if b \<noteq> 0 then toDouble (a / b)
      else if a = 0 then NaN
      else signed_infinity (if a < 0 then - 1 else 1))"
| "js_div toDouble (Finite a) _ = Finite 0"
| "js_div toDouble a (Finite b) =
     (case js_sign a of
        Some s \<Rightarrow> signed_infinity (if b < 0 then - s else s)
      | None \<Rightarrow> NaN)"
| "js_div toDouble _ _ = NaN"

section \<open>The chart component (\<open>src/components/chart.tsx\<close>)\<close>

text \<open>
  \<open>interface MarketTick\<close>. The dashboard's declaration has the same fields as the
  chart's, with \<open>symbol\<close> added and \<open>volume\<close> required; one record serves both. The
  price fields carry the prefix \<open>tick_\<close>.
\<close>

record MarketTick =
  symbol :: string
  timestamp :: string
  tick_open :: number
  tick_high :: number
  tick_low :: number
  tick_close :: number
  volume :: number

text \<open>The object literal \<open>{ time, open, high, low, close }\<close> handed to the chart library.\<close>

record ChartPoint =
  time :: int
  pt_open :: number
  pt_high :: number
  pt_low :: number
  pt_close :: number

text \<open>
  \<open>new Date(s).getTime()\<close> is a built-in of the platform, taken as a parameter
  \<open>parse\<close> of type \<^typ>\<open>string \<Rightarrow> int option\<close>: \<open>None\<close> is \<open>NaN\<close> (an invalid date),
  \<open>Some ms\<close> the time value in milliseconds, an integer of absolute value at most
  \<open>8.64e15\<close>. For such an integer \<open>Math.floor(ts / 1000)\<close> is the floor of the exact
  quotient: a quotient that is not an integer is at least \<open>1/1000\<close> away from the next
  integer, more than the rounding error of the division. Hence \<open>ts div 1000\<close> on \<open>int\<close>.
\<close>

type_synonym date_parser = "string \<Rightarrow> int option"

text \<open>The callback of \<open>data.map\<close>: \<open>None\<close> stands for \<open>null\<close>.\<close>

definition toPoint :: "date_parser \<Rightarrow> MarketTick \<Rightarrow> ChartPoint option" where
  "toPoint parse tick =
     (case parse (timestamp tick) of
        None \<Rightarrow> None
      | Some ts \<Rightarrow>
          Some \<lparr>time = ts div 1000, pt_open = tick_open tick, pt_high = tick_high tick,
                pt_low = tick_low tick, pt_close = tick_close tick\<rparr>)"

text \<open>\<open>const chartData = data.map(...).filter((d) => d !== null)\<close>.\<close>

definition chartData :: "date_parser \<Rightarrow> MarketTick list \<Rightarrow> ChartPoint list" where
  "chartData parse data = map the (filter (\<lambda>d. d \<noteq> None) (map (toPoint parse) data))"

text \<open>
  A JavaScript \<open>Map\<close> is a list of entries in insertion order. \<open>set\<close> on a key that is
  present replaces the value where the entry stands; a new key goes to the end.
  \<open>new Map(entries)\<close> sets the entries one after the other, and \<open>values()\<close> walks the
  entries in order.
\<close>

fun Map_set :: "('k \<times> 'v) list \<Rightarrow> 'k \<Rightarrow> 'v \<Rightarrow> ('k \<times> 'v) list" where
  "Map_set [] k v = [(k, v)]"
| "Map_set ((k', v') # m) k v =
     (if k' = k then (k', v) # m else (k', v') # Map_set m k v)"

definition new_Map :: "('k \<times> 'v) list \<Rightarrow> ('k \<times> 'v) list" where
  "new_Map entries = foldl (\<lambda>m (k, v). Map_set m k v) [] entries"

definition Map_values :: "('k \<times> 'v) list \<Rightarrow> 'v list" where
  "Map_values m = map snd m"

text \<open>
  \<open>Array.prototype.sort\<close> with a comparator, as a stable insertion sort: \<open>x\<close> goes before
  the first element \<open>y\<close> with \<open>cmp x y \<le> 0\<close>. The language fixes the result of a stable
  sort for a consistent comparator, whatever the algorithm of the engine.
\<close>

fun insert_sorted :: "('a \<Rightarrow> 'a \<Rightarrow> int) \<Rightarrow> 'a \<Rightarrow> 'a list \<Rightarrow> 'a list" where
  "insert_sorted cmp x [] = [x]"
| "insert_sorted cmp x (y # ys) =
     (if cmp x y \<le> 0 then x # y # ys else y # insert_sorted cmp x ys)"

definition Array_sort :: "('a \<Rightarrow> 'a \<Rightarrow> int) \<Rightarrow> 'a list \<Rightarrow> 'a list" where
  "Array_sort cmp xs = foldr (insert_sorted cmp) xs []"

text \<open>
  \<open>const uniqueData = Array.from(new Map(chartData.map((d) => [d.time, d])).values())
  .sort((a, b) => a.time - b.time)\<close>.
\<close>

definition uniqueData :: "ChartPoint list \<Rightarrow> ChartPoint list" where
  "uniqueData cd =
     Array_sort (\<lambda>a b. time a - time b)
       (Map_values (new_Map (map (\<lambda>d. (time d, d)) cd)))"

text \<open>The canonical series of a buffer: what the effect computes from \<open>data\<close>.\<close>

definition canonicalSeries :: "date_parser \<Rightarrow> MarketTick list \<Rightarrow> ChartPoint list" where
  "canonicalSeries parse data = uniqueData (chartData parse data)"

text \<open>The time bucket of a tick: the \<open>time\<close> of the point it maps to, if it maps to one.\<close>

definition bucket :: "date_parser \<Rightarrow> MarketTick \<Rightarrow> int option" where
  "bucket parse tick = map_option time (toPoint parse tick)"

text \<open>
  The effect on \<open>[data]\<close>. The two refs are non-null or null; the calls made on the
  rendering surface are returned in the order they are issued.
\<close>

record ChartRefs =
  seriesRef :: bool
  chartRef :: bool

datatype SurfaceCall = SetData "ChartPoint list" | FitContent

text \<open>
  The refs start as \<open>useRef(null)\<close>. The effect on \<open>[backgroundColor, textColor]\<close>
  returns at once without a container element, and otherwise creates the chart and its
  candlestick series and stores both.
\<close>

definition unmounted :: ChartRefs where
  "unmounted = \<lparr>seriesRef = False, chartRef = False\<rparr>"

definition mountEffect :: "bool \<Rightarrow> ChartRefs \<Rightarrow> ChartRefs" where
  "mountEffect container refs =
     (if \<not> container then refs else refs\<lparr>chartRef := True, seriesRef := True\<rparr>)"

definition mounted :: ChartRefs where
  "mounted = mountEffect True unmounted"

definition dataEffect :: "date_parser \<Rightarrow> ChartRefs \<Rightarrow> MarketTick list \<Rightarrow> SurfaceCall list" where
  "dataEffect parse refs data =
     (if \<not> seriesRef refs \<or> length data = 0 then []
      else
        let cd = chartData parse data in
        if length cd = 0 then []
        else
          let ud = uniqueData cd in
          if length ud = 0 then []
          else SetData ud # (if length ud \<le> 20 \<and> chartRef refs then [FitContent] else []))"

text \<open>
  What the rendering surface shows: the series last given to \<open>setData\<close> and the number
  of \<open>fitContent\<close> requests it has received.
\<close>

record Surface =
  series_data :: "ChartPoint list"
  fit_requests :: nat

fun apply_call :: "Surface \<Rightarrow> SurfaceCall \<Rightarrow> Surface" where
  "apply_call s (SetData ps) = s\<lparr>series_data := ps\<rparr>"
| "apply_call s FitContent = s\<lparr>fit_requests := Suc (fit_requests s)\<rparr>"

definition render :: "date_parser \<Rightarrow> ChartRefs \<Rightarrow> MarketTick list \<Rightarrow> Surface \<Rightarrow> Surface" where
  "render parse refs data s = foldl apply_call s (dataEffect parse refs data)"

section \<open>The dashboard (\<open>src/unnamed/part_000\<close>)\<close>

fun js_abs :: "number \<Rightarrow> number" where
  "js_abs (Finite a) = Finite \<bar>a\<bar>"
| "js_abs PosInfinity = PosInfinity"
| "js_abs NegInfinity = PosInfinity"
| "js_abs NaN = NaN"

text \<open>
  Two more built-ins are parameters: \<open>value.toFixed(digits)\<close>, of type
  \<^typ>\<open>number \<Rightarrow> nat \<Rightarrow> string\<close>, and \<open>new Date(s).toLocaleTimeString()\<close>, of type
  \<^typ>\<open>string \<Rightarrow> string\<close>. The reading of the clock, \<open>new Date().toLocaleTimeString()\<close>,
  is an argument \<open>now\<close> of every function that logs.
\<close>

type_synonym to_fixed = "number \<Rightarrow> nat \<Rightarrow> string"

datatype PositionSide = LONG | NONE

text \<open>\<open>interface AgentDecision\<close>: \<open>None\<close> is \<open>null\<close> or a missing field.\<close>

record AgentDecision =
  action :: string
  decision_symbol :: string
  quantity :: "number option"
  price :: "number option"
  reason :: string
  balance :: number
  equity :: number
  realizedPnl :: "number option"
  roiPct :: "number option"
  positionSide :: "PositionSide option"
  positionSize :: "number option"
  positionOpenTime :: "string option"
  takeProfitPrice :: "number option"
  stopLossPrice :: "number option"
  positionNotional :: "number option"
  avgEntryPrice :: "number option"

datatype Request = GET string | POST string

text \<open>
  The state of the \<open>Dashboard\<close> component: its six \<open>useState\<close> cells (the cell
  \<open>chartData\<close> is the field \<open>chartData_state\<close>), and the HTTP requests issued so far.
\<close>

record Dashboard =
  isConnected :: bool
  currentTick :: "MarketTick option"
  agentDecision :: "AgentDecision option"
  logs :: "string list"
  chartData_state :: "MarketTick list"
  isLoading :: bool
  sent :: "Request list"

definition initial :: Dashboard where
  "initial = \<lparr>isConnected = False, currentTick = None, agentDecision = None, logs = [],
              chartData_state = [], isLoading = True, sent = []\<rparr>"

definition formatNumber :: "to_fixed \<Rightarrow> number option \<Rightarrow> nat \<Rightarrow> string \<Rightarrow> string" where
  "formatNumber toFixed value digits emptyText =
     (case value of None \<Rightarrow> emptyText | Some v \<Rightarrow> toFixed v digits)"

text \<open>The template \<open>[${timestamp}] ${msg}\<close> of a log entry.\<close>

definition logEntry :: "string \<Rightarrow> string \<Rightarrow> string" where
  "logEntry now msg = ''['' @ now @ ''] '' @ msg"

definition addLog :: "string \<Rightarrow> string \<Rightarrow> Dashboard \<Rightarrow> Dashboard" where
  "addLog now msg s = s\<lparr>logs := logEntry now msg # take 99 (logs s)\<rparr>"

text \<open>
  How an awaited \<open>fetch\<close> ends. \<open>Rejected e\<close>: the promise rejects, \<open>e\<close> being
  \<open>String(error)\<close>. \<open>Responded ok body\<close>: it resolves to a response with \<open>res.ok = ok\<close>
  whose \<open>res.json()\<close> resolves to \<open>Inr data\<close> or rejects with \<open>Inl e\<close>.
\<close>

datatype 'a FetchOutcome = Rejected string | Responded bool "string + 'a"

text \<open>\<open>String(new Error(msg))\<close>.\<close>

definition String_Error :: "string \<Rightarrow> string" where
  "String_Error msg = ''Error: '' @ msg"

text \<open>
  An \<open>async\<close> handler runs up to its \<open>await\<close>, and resumes when the promise settles;
  other events may be handled in between. Each handler is therefore two functions:
  \<open>_start\<close> up to the \<open>await fetch\<close>, \<open>_settle\<close> from there on.
\<close>

definition fetchInitialMarketData_start :: "string \<Rightarrow> Dashboard \<Rightarrow> Dashboard" where
  "fetchInitialMarketData_start now s =
     (addLog now ''Fetching initial market data...'' s)
       \<lparr>sent := sent s @ [GET ''http://localhost:8081/api/market/current'']\<rparr>"

definition fetchInitialMarketData_settle ::
  "to_fixed \<Rightarrow> string \<Rightarrow> MarketTick FetchOutcome \<Rightarrow> Dashboard \<Rightarrow> Dashboard" where
  "fetchInitialMarketData_settle toFixed now outcome s =
     (let failed = (\<lambda>e. addLog now (''ERROR: Market data fetch failed - '' @ take 40 e) s) in
      case outcome of
        Rejected e \<Rightarrow> failed e
      | Responded ok body \<Rightarrow>
          if \<not> ok then failed (String_Error ''Failed to fetch market data'')
          else
            (case body of
               Inl e \<Rightarrow> failed e
             | Inr data \<Rightarrow>
                 addLog now (''Market: '' @ symbol data @ '' @ '' @ toFixed (tick_close data) 2)
                   (s\<lparr>currentTick := Some data, chartData_state := [data]\<rparr>)))"

definition fetchLastAgentDecision_start :: "string \<Rightarrow> Dashboard \<Rightarrow> Dashboard" where
  "fetchLastAgentDecision_start now s =
     (addLog now ''Fetching last agent decision...'' s)
       \<lparr>sent := sent s @ [GET ''http://localhost:8081/api/market/last-decision'']\<rparr>"

definition fetchLastAgentDecision_settle ::
  "to_fixed \<Rightarrow> string \<Rightarrow> AgentDecision FetchOutcome \<Rightarrow> Dashboard \<Rightarrow> Dashboard" where
  "fetchLastAgentDecision_settle toFixed now outcome s =
     (let failed = (\<lambda>e. addLog now (''ERROR: Agent decision fetch failed - '' @ take 40 e) s) in
      case outcome of
        Rejected e \<Rightarrow> failed e
      | Responded ok body \<Rightarrow>
          if \<not> ok then failed (String_Error ''Failed to fetch decision'')
          else
            (case body of
               Inl e \<Rightarrow> failed e
             | Inr data \<Rightarrow>
                 (let balanceText = toFixed (balance data) 2;
                      equityText = toFixed (equity data) 2;
                      roiText = (case roiPct data of Some r \<Rightarrow> toFixed r 2 | None \<Rightarrow> ''0.00'')
                  in addLog now
                       (''Agent: balance=$'' @ balanceText @ '' equity=$'' @ equityText
                          @ '' roi='' @ roiText @ ''%'')
                       (s\<lparr>agentDecision := Some data\<rparr>))))"

definition handleForceUpdate_start :: "string \<Rightarrow> Dashboard \<Rightarrow> Dashboard" where
  "handleForceUpdate_start now s =
     (addLog now ''Requesting force update...'' s)
       \<lparr>sent := sent s @ [POST ''http://localhost:8081/api/market/force-update'']\<rparr>"

definition handleForceUpdate_settle :: "string \<Rightarrow> 'a FetchOutcome \<Rightarrow> Dashboard \<Rightarrow> Dashboard" where
  "handleForceUpdate_settle now outcome s =
     (let failed = (\<lambda>e. addLog now (''ERROR: Force update failed - '' @ take 40 e) s) in
      case outcome of
        Rejected e \<Rightarrow> failed e
      | Responded ok body \<Rightarrow>
          if \<not> ok then failed (String_Error ''Force update failed'')
          else addLog now ''Force update requested successfully'' s)"

text \<open>The whole handler, when nothing else happens while the request is in flight.\<close>

definition handleForceUpdate ::
  "string \<Rightarrow> string \<Rightarrow> 'a FetchOutcome \<Rightarrow> Dashboard \<Rightarrow> Dashboard" where
  "handleForceUpdate now1 now2 outcome s =
     handleForceUpdate_settle now2 outcome (handleForceUpdate_start now1 s)"

text \<open>
  The callbacks of the STOMP client. A message carries the result of \<open>JSON.parse\<close> on
  its body: \<open>None\<close> when parsing throws (the \<open>catch\<close> writes to the console only).
\<close>

definition onConnect :: "string \<Rightarrow> Dashboard \<Rightarrow> Dashboard" where
  "onConnect now s = addLog now ''WebSocket connected'' (s\<lparr>isConnected := True\<rparr>)"

definition onDisconnect :: "string \<Rightarrow> Dashboard \<Rightarrow> Dashboard" where
  "onDisconnect now s = addLog now ''WebSocket disconnected'' (s\<lparr>isConnected := False\<rparr>)"

definition onStompError :: "string \<Rightarrow> string option \<Rightarrow> Dashboard \<Rightarrow> Dashboard" where
  "onStompError now header s =
     addLog now
       (''ERROR: '' @ (case header of
                         None \<Rightarrow> ''STOMP error''
                       | Some m \<Rightarrow> if m = [] then ''STOMP error'' else m))
       s"

definition onMarketMessage :: "MarketTick option \<Rightarrow> Dashboard \<Rightarrow> Dashboard" where
  "onMarketMessage message s =
     (case message of
        None \<Rightarrow> s
      | Some tick \<Rightarrow>
          s\<lparr>currentTick := Some tick,
            chartData_state :=
              (let deduplicated = filter (\<lambda>d. timestamp d \<noteq> timestamp tick) (chartData_state s)
               in deduplicated @ [tick])\<rparr>)"

definition onDecisionMessage ::
  "to_fixed \<Rightarrow> string \<Rightarrow> AgentDecision option \<Rightarrow> Dashboard \<Rightarrow> Dashboard" where
  "onDecisionMessage toFixed now message s =
     (case message of
        None \<Rightarrow> s
      | Some decision \<Rightarrow>
          (let qtyText = (case quantity decision of Some q \<Rightarrow> toFixed q 4 | None \<Rightarrow> ''---'');
               priceText = (case price decision of Some p \<Rightarrow> toFixed p 2 | None \<Rightarrow> ''---'');
               roiText = (case roiPct decision of Some r \<Rightarrow> toFixed r 2 | None \<Rightarrow> ''0.00'')
           in addLog now
                (''AGENT: '' @ action decision @ '' qty='' @ qtyText @ '' price='' @ priceText
                   @ '' roi='' @ roiText @ ''% reason='' @ reason decision)
                (s\<lparr>agentDecision := Some decision\<rparr>)))"

text \<open>Everything that can happen to the dashboard, and the state after a run of events.\<close>

datatype Event =
    FetchMarketStart string
  | FetchMarketSettle string "MarketTick FetchOutcome"
  | FetchDecisionStart string
  | FetchDecisionSettle string "AgentDecision FetchOutcome"
  | InitialFetchesDone
  | ForceUpdateStart string
  | ForceUpdateSettle string "unit FetchOutcome"
  | Connected string
  | Disconnected string
  | StompError string "string option"
  | MarketMessage "MarketTick option"
  | DecisionMessage string "AgentDecision option"

fun step :: "to_fixed \<Rightarrow> Dashboard \<Rightarrow> Event \<Rightarrow> Dashboard" where
  "step toFixed s (FetchMarketStart now) = fetchInitialMarketData_start now s"
| "step toFixed s (FetchMarketSettle now outcome) =
     fetchInitialMarketData_settle toFixed now outcome s"
| "step toFixed s (FetchDecisionStart now) = fetchLastAgentDecision_start now s"
| "step toFixed s (FetchDecisionSettle now outcome) =
     fetchLastAgentDecision_settle toFixed now outcome s"
| "step toFixed s InitialFetchesDone = s\<lparr>isLoading := False\<rparr>"
| "step toFixed s (ForceUpdateStart now) = handleForceUpdate_start now s"
| "step toFixed s (ForceUpdateSettle now outcome) = handleForceUpdate_settle now outcome s"
| "step toFixed s (Connected now) = onConnect now s"
| "step toFixed s (Disconnected now) = onDisconnect now s"
| "step toFixed s (StompError now header) = onStompError now header s"
| "step toFixed s (MarketMessage message) = onMarketMessage message s"
| "step toFixed s (DecisionMessage now message) = onDecisionMessage toFixed now message s"

definition run :: "to_fixed \<Rightarrow> Event list \<Rightarrow> Dashboard" where
  "run toFixed events = foldl (step toFixed) initial events"

subsection \<open>Values derived while rendering\<close>

definition priceChange :: "rounding \<Rightarrow> Dashboard \<Rightarrow> number" where
  "priceChange toDouble s =
     (case currentTick s of
        Some t \<Rightarrow> js_sub toDouble (tick_close t) (tick_open t)
      | None \<Rightarrow> Finite 0)"

definition percentChange :: "rounding \<Rightarrow> Dashboard \<Rightarrow> number" where
  "percentChange toDouble s =
     (case currentTick s of
        Some t \<Rightarrow>
          if js_strict_neq (tick_open t) (Finite 0)
          then js_mul toDouble (js_div toDouble (priceChange toDouble s) (tick_open t)) (Finite 100)
          else Finite 0
      | None \<Rightarrow> Finite 0)"

text \<open>The text \<open>{Math.abs(percentChange).toFixed(2)}%\<close> under the current price.\<close>

definition percentChangeText :: "rounding \<Rightarrow> to_fixed \<Rightarrow> Dashboard \<Rightarrow> string" where
  "percentChangeText toDouble toFixed s = toFixed (js_abs (percentChange toDouble s)) 2 @ ''%''"

definition hasOpenPosition :: "Dashboard \<Rightarrow> bool" where
  "hasOpenPosition s =
     (case agentDecision s of
        None \<Rightarrow> False
      | Some d \<Rightarrow>
          positionSide d = Some LONG
          \<and> js_gt (case positionSize d of Some n \<Rightarrow> n | None \<Rightarrow> Finite 0) (Finite 0))"

definition symbolText :: "Dashboard \<Rightarrow> string" where
  "symbolText s = (case currentTick s of Some t \<Rightarrow> symbol t | None \<Rightarrow> ''---'')"

text \<open>
  The \<open>Position\<close> block: either the headline \<open>LONG size symbol\<close> with the five detail
  cells, or the line \<open>No open position\<close>.
\<close>

datatype PositionBlock =
    OpenPosition (headline: string) (entry: string) (notional: string)
      (takeProfit: string) (stopLoss: string) (openedAt: string)
  | NoOpenPosition

definition positionBlock :: "to_fixed \<Rightarrow> (string \<Rightarrow> string) \<Rightarrow> Dashboard \<Rightarrow> PositionBlock" where
  "positionBlock toFixed toLocaleTimeString s =
     (let ad = agentDecision s;
          positionOpenText =
            (case Option.bind ad positionOpenTime of
               Some t \<Rightarrow> toLocaleTimeString t
             | None \<Rightarrow> ''---'');
          tpText = formatNumber toFixed (Option.bind ad takeProfitPrice) 2 ''---'';
          slText = formatNumber toFixed (Option.bind ad stopLossPrice) 2 ''---'';
          notionalText = formatNumber toFixed (Option.bind ad positionNotional) 2 ''---'';
          entryText = formatNumber toFixed (Option.bind ad avgEntryPrice) 2 ''---''
      in if hasOpenPosition s
         then OpenPosition
                (''LONG ''
                   @ toFixed (case Option.bind ad positionSize of Some n \<Rightarrow> n | None \<Rightarrow> Finite 0) 4
                   @ '' '' @ symbolText s)
                (''$'' @ entryText) (''$'' @ notionalText) (''$'' @ tpText) (''$'' @ slText)
                positionOpenText
         else NoOpenPosition)"

section \<open>A date parser for concrete buffers\<close>

text \<open>
  To run the model on concrete timestamps, the parameter \<open>parse\<close> is instantiated with
  a parser of the UTC form \<open>YYYY-MM-DDTHH:mm:ss[.sss]Z\<close> of the date-time string format;
  every other string is an invalid date here.
\<close>

definition digit_of :: "char \<Rightarrow> nat option" where
  "digit_of c =
     (let n = (of_char c :: nat) in if 48 \<le> n \<and> n \<le> 57 then Some (n - 48) else None)"

fun read_digits :: "nat \<Rightarrow> string \<Rightarrow> (nat \<times> string) option" where
  "read_digits 0 s = Some (0, s)"
| "read_digits (Suc n) [] = None"
| "read_digits (Suc n) (c # cs) =
     (case digit_of c of
        None \<Rightarrow> None
      | Some d \<Rightarrow>
          (case read_digits n cs of
             None \<Rightarrow> None
           | Some (v, rest) \<Rightarrow> Some (d * 10 ^ n + v, rest)))"

fun read_char :: "char \<Rightarrow> string \<Rightarrow> string option" where
  "read_char c [] = None"
| "read_char c (x # xs) = (if x = c then Some xs else None)"

definition read_fraction :: "string \<Rightarrow> (nat \<times> string) option" where
  "read_fraction s =
     (case read_char (CHR ''.'') s of
        None \<Rightarrow> Some (0, s)
      | Some s' \<Rightarrow> read_digits 3 s')"

definition leap_year :: "nat \<Rightarrow> bool" where
  "leap_year y = (y mod 4 = 0 \<and> (y mod 100 \<noteq> 0 \<or> y mod 400 = 0))"

definition days_in_month :: "nat \<Rightarrow> nat \<Rightarrow> nat" where
  "days_in_month y m =
     (if m = 2 then (if leap_year y then 29 else 28)
      else if m = 4 \<or> m = 6 \<or> m = 9 \<or> m = 11 then 30 else 31)"

text \<open>Days from 1970-01-01 to the given day of the proleptic Gregorian calendar.\<close>

definition days_from_civil :: "int \<Rightarrow> int \<Rightarrow> int \<Rightarrow> int" where
  "days_from_civil y m d =
     (let y' = (if m \<le> 2 then y - 1 else y);
          era = y' div 400;
          yoe = y' - era * 400;
          doy = (153 * (if m > 2 then m - 3 else m + 9) + 2) div 5 + d - 1;
          doe = yoe * 365 + yoe div 4 - yoe div 100 + doy
      in era * 146097 + doe - 719468)"

definition isoDateTime :: date_parser where
  "isoDateTime s = do {
     (y, s) \<leftarrow> read_digits 4 s;
     s \<leftarrow> read_char (CHR ''-'') s;
     (m, s) \<leftarrow> read_digits 2 s;
     s \<leftarrow> read_char (CHR ''-'') s;
     (d, s) \<leftarrow> read_digits 2 s;
     s \<leftarrow> read_char (CHR ''T'') s;
     (h, s) \<leftarrow> read_digits 2 s;
     s \<leftarrow> read_char (CHR '':'') s;
     (mi, s) \<leftarrow> read_digits 2 s;
     s \<leftarrow> read_char (CHR '':'') s;
     (sec, s) \<leftarrow> read_digits 2 s;
     (ms, s) \<leftarrow> read_fraction s;
     s \<leftarrow> read_char (CHR ''Z'') s;
     if s = [] \<and> 1 \<le> m \<and> m \<le> 12 \<and> 1 \<le> d \<and> d \<le> days_in_month y m
        \<and> h \<le> 23 \<and> mi \<le> 59 \<and> sec \<le> 59
     then Some ((((days_from_civil (int y) (int m) (int d) * 24 + int h) * 60 + int mi) * 60
                  + int sec) * 1000 + int ms)
     else None
   }"

text \<open>A tick with the given timestamp and four given prices, for concrete buffers.\<close>

definition tickAt :: "string \<Rightarrow> real \<Rightarrow> real \<Rightarrow> real \<Rightarrow> real \<Rightarrow> MarketTick" where
  "tickAt ts op hi lo cl =
     \<lparr>symbol = ''BTCUSDT'', timestamp = ts, tick_open = Finite op, tick_high = Finite hi,
      tick_low = Finite lo, tick_close = Finite cl, volume = Finite 1\<rparr>"


text \<open>A buffer of \<open>n \<le> 60\<close> ticks, one per second from \<open>2024-01-01T00:00:00Z\<close> on.\<close>

definition two_digits :: "nat \<Rightarrow> string" where
  "two_digits n = [char_of (48 + n div 10), char_of (48 + n mod 10)]"

definition secondsBuffer :: "nat \<Rightarrow> MarketTick list" where
  "secondsBuffer n =
     map (\<lambda>k. tickAt (''2024-01-01T00:00:'' @ two_digits k @ ''Z'') 1 2 0 1) [0..<n]"

section \<open>Properties of the series synchronizer\<close>

text \<open>The parser on the timestamps used below.\<close>

lemma iso_a: "isoDateTime ''2024-01-01T00:00:00Z'' = Some 1704067200000"
  by code_simp

lemma iso_b: "isoDateTime ''2024-01-01T00:00:00.500Z'' = Some 1704067200500"
  by code_simp

lemma iso_c: "isoDateTime ''2024-01-01T00:00:01Z'' = Some 1704067201000"
  by code_simp

lemma iso_bad1: "isoDateTime '''' = None"
  by code_simp

lemma iso_bad2: "isoDateTime ''not a date'' = None"
  by code_simp

lemma chartData_map_filter: "chartData parse data = List.map_filter (toPoint parse) data"
  by (induction data) (auto simp: chartData_def List.map_filter_def)

lemma Map_set_keys:
  "map fst (Map_set m k v) = (if k \<in> fst ` set m then map fst m else map fst m @ [k])"
  by (induction m k v rule: Map_set.induct) auto

lemma Map_set_distinct: "distinct (map fst m) \<Longrightarrow> distinct (map fst (Map_set m k v))"
  by (simp add: Map_set_keys)

lemma Map_set_lookup: "map_of (Map_set m k v) = (map_of m)(k \<mapsto> v)"
  by (induction m k v rule: Map_set.induct) (auto simp: fun_eq_iff)

lemma Map_set_entries: "set (Map_set m k v) \<subseteq> insert (k, v) (set m)"
  by (induction m k v rule: Map_set.induct) auto

lemma foldl_Map_set_distinct:
  "distinct (map fst m) \<Longrightarrow> distinct (map fst (foldl (\<lambda>m (k, v). Map_set m k v) m es))"
  by (induction es arbitrary: m) (auto simp: Map_set_distinct)

lemma foldl_Map_set_entries:
  "set (foldl (\<lambda>m (k, v). Map_set m k v) m es) \<subseteq> set m \<union> set es"
proof (induction es arbitrary: m)
  case Nil
  show ?case by simp
next
  case (Cons e es)
  obtain k v where e: "e = (k, v)" by (cases e)
  have "set (foldl (\<lambda>m (k, v). Map_set m k v) (Map_set m k v) es)
          \<subseteq> set (Map_set m k v) \<union> set es"
    by (rule Cons.IH)
  with Map_set_entries [of m k v] show ?case
    unfolding e by auto
qed

lemma foldl_Map_set_lookup:
  "map_of (foldl (\<lambda>m (k, v). Map_set m k v) m es) = map_of m ++ map_of (rev es)"
proof (induction es arbitrary: m)
  case Nil
  show ?case by simp
next
  case (Cons e es)
  obtain k v where e: "e = (k, v)" by (cases e)
  show ?case
    unfolding e by (simp add: Cons.IH Map_set_lookup fun_eq_iff map_add_def split: option.splits)
qed

lemma new_Map_distinct: "distinct (map fst (new_Map es))"
  unfolding new_Map_def by (rule foldl_Map_set_distinct) simp

lemma new_Map_entries: "set (new_Map es) \<subseteq> set es"
  unfolding new_Map_def using foldl_Map_set_entries [of "[]" es] by simp

lemma new_Map_lookup: "map_of (new_Map es) = map_of (rev es)"
  unfolding new_Map_def by (simp add: foldl_Map_set_lookup)

lemma insert_sorted_time:
  "insert_sorted (\<lambda>a b. time a - time b) x ys = insort_key time x ys"
  by (induction ys) auto

lemma Array_sort_time: "Array_sort (\<lambda>a b. time a - time b) xs = sort_key time xs"
  unfolding Array_sort_def sort_key_def by (induction xs) (auto simp: insert_sorted_time)

lemma keyed_values_times:
  "map time (Map_values (new_Map (map (\<lambda>d. (time d, d)) cd)))
     = map fst (new_Map (map (\<lambda>d. (time d, d)) cd))"
proof -
  have "\<forall>e \<in> set (new_Map (map (\<lambda>d. (time d, d)) cd)). time (snd e) = fst e"
    using new_Map_entries [of "map (\<lambda>d. (time d, d)) cd"] by auto
  then show ?thesis
    unfolding Map_values_def by (simp add: comp_def)
qed

lemma uniqueData_times_distinct: "distinct (map time (uniqueData cd))"
proof -
  have "distinct (map time (Map_values (new_Map (map (\<lambda>d. (time d, d)) cd))))"
    by (simp add: keyed_values_times new_Map_distinct)
  then show ?thesis
    unfolding uniqueData_def Array_sort_time by (simp add: distinct_map)
qed



text \<open>
  An example: four ticks out of order, one of them without a valid timestamp and two in
  the same second.
\<close>

lemma canonicalSeries_example:
  "canonicalSeries isoDateTime
      [tickAt ''2024-01-01T00:00:01Z'' 5 6 7 8, tickAt ''2024-01-01T00:00:00Z'' 1 2 3 4,
       tickAt ''not a date'' 0 0 0 0, tickAt ''2024-01-01T00:00:00.500Z'' 9 10 11 12]
   = [\<lparr>time = 1704067200, pt_open = Finite 9, pt_high = Finite 10, pt_low = Finite 11,
       pt_close = Finite 12\<rparr>,
      \<lparr>time = 1704067201, pt_open = Finite 5, pt_high = Finite 6, pt_low = Finite 7,
       pt_close = Finite 8\<rparr>]"
  by (simp add: canonicalSeries_def chartData_def toPoint_def uniqueData_def new_Map_def
      Map_values_def Array_sort_def tickAt_def iso_a iso_b iso_c iso_bad2)

lemma map_of_rev_keyed:
  "map_of (rev (map (\<lambda>d. (f d, d)) xs)) b =
     (if filter (\<lambda>d. f d = b) xs = [] then None else Some (last (filter (\<lambda>d. f d = b) xs)))"
  by (induction xs rule: rev_induct) auto

lemma filter_distinct_key:
  "distinct (map f xs) \<Longrightarrow> x \<in> set xs \<Longrightarrow> filter (\<lambda>y. f y = f x) xs = [x]"
proof (induction xs)
  case Nil
  then show ?case by simp
next
  case (Cons a xs)
  show ?case
  proof (cases "a = x")
    case True
    have "f x \<notin> f ` set xs"
      using Cons.prems(1) True by simp
    then have "\<forall>y \<in> set xs. f y \<noteq> f x"
      by (metis imageI)
    then have "filter (\<lambda>y. f y = f x) xs = []"
      by (simp add: filter_empty_conv)
    with True show ?thesis by simp
  next
    case False
    with Cons.prems have "x \<in> set xs" "f a \<noteq> f x" by auto
    with Cons show ?thesis by simp
  qed
qed

lemma uniqueData_set:
  "set (uniqueData cd) = snd ` set (new_Map (map (\<lambda>d. (time d, d)) cd))"
  unfolding uniqueData_def Array_sort_time Map_values_def by simp

lemma uniqueData_keeps_last:
  assumes "filter (\<lambda>p. time p = b) cd \<noteq> []"
  shows "filter (\<lambda>p. time p = b) (uniqueData cd) = [last (filter (\<lambda>p. time p = b) cd)]"
proof -
  let ?p = "last (filter (\<lambda>p. time p = b) cd)"
  have "?p \<in> set (filter (\<lambda>p. time p = b) cd)"
    using assms by (rule last_in_set)
  then have tb: "time ?p = b" by simp
  have "map_of (new_Map (map (\<lambda>d. (time d, d)) cd)) b = Some ?p"
    using assms by (simp add: new_Map_lookup map_of_rev_keyed)
  then have "(b, ?p) \<in> set (new_Map (map (\<lambda>d. (time d, d)) cd))"
    by (rule map_of_SomeD)
  then have "?p \<in> set (uniqueData cd)"
    unfolding uniqueData_set by force
  with uniqueData_times_distinct [of cd]
  have "filter (\<lambda>y. time y = time ?p) (uniqueData cd) = [?p]"
    by (rule filter_distinct_key)
  with tb show ?thesis by simp
qed

lemma chartData_snoc:
  "chartData parse (xs @ [x]) =
     chartData parse xs @ (case toPoint parse x of None \<Rightarrow> [] | Some p \<Rightarrow> [p])"
  by (simp add: chartData_def split: option.splits)

lemma chartData_bucket_filter:
  "filter (\<lambda>p. time p = b) (chartData parse data)
     = map (\<lambda>t. the (toPoint parse t)) (filter (\<lambda>t. bucket parse t = Some b) data)"
  by (induction data rule: rev_induct)
     (auto simp: chartData_snoc bucket_def chartData_def split: option.splits)

text \<open>
  Claim C2. Whenever ticks of the buffer map to a time bucket \<open>b\<close>, the canonical series
  has exactly one point for \<open>b\<close>, and its open, high, low and close are those of the
  last of these ticks in buffer order.
\<close>

theorem last_tick_wins:
  assumes same: "same = filter (\<lambda>t. bucket parse t = Some b) data"
    and ne: "same \<noteq> []"
  shows "filter (\<lambda>p. time p = b) (canonicalSeries parse data)
           = [\<lparr>time = b, pt_open = tick_open (last same), pt_high = tick_high (last same),
               pt_low = tick_low (last same), pt_close = tick_close (last same)\<rparr>]"
proof -
  have cd: "filter (\<lambda>p. time p = b) (chartData parse data) = map (\<lambda>t. the (toPoint parse t)) same"
    unfolding same by (rule chartData_bucket_filter)
  with ne have ne': "filter (\<lambda>p. time p = b) (chartData parse data) \<noteq> []" by simp
  have "last same \<in> set same" using ne by (rule last_in_set)
  then have "bucket parse (last same) = Some b" unfolding same by simp
  then have pt: "the (toPoint parse (last same))
      = \<lparr>time = b, pt_open = tick_open (last same), pt_high = tick_high (last same),
               pt_low = tick_low (last same), pt_close = tick_close (last same)\<rparr>"
    by (auto simp: bucket_def toPoint_def split: option.splits)
  have "filter (\<lambda>p. time p = b) (canonicalSeries parse data)
          = [last (filter (\<lambda>p. time p = b) (chartData parse data))]"
    unfolding canonicalSeries_def using ne' by (rule uniqueData_keeps_last)
  also have "last (filter (\<lambda>p. time p = b) (chartData parse data)) = the (toPoint parse (last same))"
    unfolding cd using ne by (simp add: last_map)
  finally show ?thesis using pt by simp
qed

theorem last_tick_wins_witness:
  "filter (\<lambda>t. bucket isoDateTime t = Some 1704067200)
     [tickAt ''2024-01-01T00:00:00Z'' 1 2 3 4, tickAt ''2024-01-01T00:00:01Z'' 5 6 7 8,
      tickAt ''2024-01-01T00:00:00.500Z'' 9 10 11 12]
     = [tickAt ''2024-01-01T00:00:00Z'' 1 2 3 4, tickAt ''2024-01-01T00:00:00.500Z'' 9 10 11 12]
   \<and> filter (\<lambda>p. time p = 1704067200)
       (canonicalSeries isoDateTime
         [tickAt ''2024-01-01T00:00:00Z'' 1 2 3 4, tickAt ''2024-01-01T00:00:01Z'' 5 6 7 8,
          tickAt ''2024-01-01T00:00:00.500Z'' 9 10 11 12])
     = [\<lparr>time = 1704067200, pt_open = Finite 9, pt_high = Finite 10, pt_low = Finite 11,
         pt_close = Finite 12\<rparr>]"
proof -
  let ?data = "[tickAt ''2024-01-01T00:00:00Z'' 1 2 3 4, tickAt ''2024-01-01T00:00:01Z'' 5 6 7 8,
      tickAt ''2024-01-01T00:00:00.500Z'' 9 10 11 12]"
  let ?same = "[tickAt ''2024-01-01T00:00:00Z'' 1 2 3 4, tickAt ''2024-01-01T00:00:00.500Z'' 9 10 11 12]"
  have same: "?same = filter (\<lambda>t. bucket isoDateTime t = Some 1704067200) ?data"
    by (simp add: bucket_def toPoint_def tickAt_def iso_a iso_b iso_c)
  have ne: "?same \<noteq> []" by simp
  show ?thesis
    using last_tick_wins [OF same ne] same by (simp add: tickAt_def)
qed

lemma uniqueData_Nil: "uniqueData [] = []"
  by (simp add: uniqueData_def new_Map_def Map_values_def Array_sort_def)

lemma chartData_Nil: "chartData parse [] = []"
  by (simp add: chartData_def)

lemma dataEffect_mounted:
  "seriesRef refs \<Longrightarrow> chartRef refs \<Longrightarrow>
   dataEffect parse refs data =
     (if canonicalSeries parse data = [] then []
      else SetData (canonicalSeries parse data)
           # (if length (canonicalSeries parse data) \<le> 20 then [FitContent] else []))"
  by (cases data)
     (auto simp: dataEffect_def canonicalSeries_def Let_def uniqueData_Nil chartData_Nil)

text \<open>
  Claim C3, amended. With the chart mounted (both refs set), \<open>fitContent\<close> is
  requested if and only if the canonical series is not empty and has at most 20 points.
  An empty series has at most 20 points too, but the effect returns before it touches
  the surface: for an empty series it calls nothing, neither \<open>setData\<close> nor
  \<open>fitContent\<close>.
\<close>

theorem auto_fit_threshold:
  assumes "seriesRef refs" and "chartRef refs"
  shows "(FitContent \<in> set (dataEffect parse refs data)
          \<longleftrightarrow> canonicalSeries parse data \<noteq> [] \<and> length (canonicalSeries parse data) \<le> 20)
         \<and> (canonicalSeries parse data = [] \<longrightarrow> dataEffect parse refs data = [])"
  using assms by (simp add: dataEffect_mounted)

lemma len20: "length (canonicalSeries isoDateTime (secondsBuffer 20)) = 20"
  by code_simp

lemma len21: "length (canonicalSeries isoDateTime (secondsBuffer 21)) = 21"
  by code_simp

theorem auto_fit_threshold_witness:
  "seriesRef mounted \<and> chartRef mounted
   \<and> length (canonicalSeries isoDateTime (secondsBuffer 20)) = 20
   \<and> FitContent \<in> set (dataEffect isoDateTime mounted (secondsBuffer 20))
   \<and> length (canonicalSeries isoDateTime (secondsBuffer 21)) = 21
   \<and> FitContent \<notin> set (dataEffect isoDateTime mounted (secondsBuffer 21))
   \<and> canonicalSeries isoDateTime [] = []
   \<and> dataEffect isoDateTime mounted [] = []"
proof -
  have m: "seriesRef mounted" "chartRef mounted"
    by (simp_all add: mounted_def mountEffect_def)
  have ne: "canonicalSeries isoDateTime (secondsBuffer 20) \<noteq> []"
    using len20 by auto
  have e: "canonicalSeries isoDateTime [] = []"
    by (simp add: canonicalSeries_def chartData_Nil uniqueData_Nil)
  show ?thesis
    using auto_fit_threshold [OF m, of isoDateTime "secondsBuffer 20"]
      auto_fit_threshold [OF m, of isoDateTime "secondsBuffer 21"]
      auto_fit_threshold [OF m, of isoDateTime "[]"] m ne e len20 len21
    by simp
qed

theorem auto_fit_empty_series_counterexample:
  "length (canonicalSeries isoDateTime []) \<le> 20
   \<and> FitContent \<notin> set (dataEffect isoDateTime mounted [])
   \<and> dataEffect isoDateTime mounted [] = []"
  by (simp add: canonicalSeries_def chartData_Nil uniqueData_Nil dataEffect_def)

lemma chartData_unparseable:
  "\<forall>t \<in> set data. parse (timestamp t) = None \<Longrightarrow> chartData parse data = []"
  by (induction data) (auto simp: chartData_def toPoint_def)

text \<open>
  Claim C4. When no tick of the buffer has a timestamp that parses (in particular when
  the buffer is empty), the canonical series is empty, the effect calls neither
  \<open>setData\<close> nor \<open>fitContent\<close>, and the rendering surface stays as it was.
\<close>

theorem unparseable_buffer_no_update:
  assumes "\<forall>t \<in> set data. parse (timestamp t) = None"
  shows "canonicalSeries parse data = []
         \<and> dataEffect parse refs data = []
         \<and> render parse refs data surface = surface"
  using chartData_unparseable [OF assms]
  by (simp add: canonicalSeries_def uniqueData_Nil dataEffect_def render_def)

theorem unparseable_buffer_no_update_witness:
  "isoDateTime (timestamp (tickAt '''' 1 2 0 1)) = None
   \<and> isoDateTime (timestamp (tickAt ''not a date'' 3 4 2 3)) = None
   \<and> canonicalSeries isoDateTime [tickAt '''' 1 2 0 1, tickAt ''not a date'' 3 4 2 3] = []
   \<and> dataEffect isoDateTime mounted [tickAt '''' 1 2 0 1, tickAt ''not a date'' 3 4 2 3] = []
   \<and> render isoDateTime mounted [tickAt '''' 1 2 0 1, tickAt ''not a date'' 3 4 2 3]
        \<lparr>series_data = [], fit_requests = 0\<rparr> = \<lparr>series_data = [], fit_requests = 0\<rparr>
   \<and> dataEffect isoDateTime mounted [] = []"
proof -
  have h: "\<forall>t \<in> set [tickAt '''' 1 2 0 1, tickAt ''not a date'' 3 4 2 3].
      isoDateTime (timestamp t) = None"
    by (simp add: tickAt_def iso_bad1 iso_bad2)
  have e: "\<forall>t \<in> set ([] :: MarketTick list). isoDateTime (timestamp t) = None"
    by simp
  show ?thesis
    using unparseable_buffer_no_update [OF h, of mounted "\<lparr>series_data = [], fit_requests = 0\<rparr>"]
      unparseable_buffer_no_update [OF e, of mounted "\<lparr>series_data = [], fit_requests = 0\<rparr>"] h
    by simp
qed

text \<open>
  Claim C6. A buffer of two ticks stamped \<open>2024-01-01T00:00:00Z\<close> and
  \<open>2024-01-01T00:00:00.500Z\<close>, whatever their other fields, has a canonical series of
  exactly one point, in bucket \<open>1704067200\<close>, with the prices of the second tick. The
  two time values are those the two strings denote. The dashboard holds this very buffer
  after the two ticks arrive in this order: their timestamp strings differ, so the
  message handler keeps both.
\<close>

theorem same_second_scenario:
  assumes "parse ''2024-01-01T00:00:00Z'' = Some 1704067200000"
    and "parse ''2024-01-01T00:00:00.500Z'' = Some 1704067200500"
  shows "canonicalSeries parse
           [t1\<lparr>timestamp := ''2024-01-01T00:00:00Z''\<rparr>,
            t2\<lparr>timestamp := ''2024-01-01T00:00:00.500Z''\<rparr>]
         = [\<lparr>time = 1704067200, pt_open = tick_open t2, pt_high = tick_high t2,
             pt_low = tick_low t2, pt_close = tick_close t2\<rparr>]
       \<and> chartData_state
           (onMarketMessage (Some (t2\<lparr>timestamp := ''2024-01-01T00:00:00.500Z''\<rparr>))
             (onMarketMessage (Some (t1\<lparr>timestamp := ''2024-01-01T00:00:00Z''\<rparr>)) initial))
         = [t1\<lparr>timestamp := ''2024-01-01T00:00:00Z''\<rparr>,
            t2\<lparr>timestamp := ''2024-01-01T00:00:00.500Z''\<rparr>]"
  using assms
  by (simp add: canonicalSeries_def chartData_def toPoint_def uniqueData_def new_Map_def
      Map_values_def Array_sort_def onMarketMessage_def initial_def)

theorem same_second_scenario_witness:
  "isoDateTime ''2024-01-01T00:00:00Z'' = Some 1704067200000
   \<and> isoDateTime ''2024-01-01T00:00:00.500Z'' = Some 1704067200500
   \<and> canonicalSeries isoDateTime
       [tickAt ''2024-01-01T00:00:00Z'' 100 110 90 105,
        tickAt ''2024-01-01T00:00:00.500Z'' 105 120 95 115]
     = [\<lparr>time = 1704067200, pt_open = Finite 105, pt_high = Finite 120,
         pt_low = Finite 95, pt_close = Finite 115\<rparr>]"
  using same_second_scenario [OF iso_a iso_b,
      of "tickAt ''2024-01-01T00:00:00Z'' 100 110 90 105"
         "tickAt ''2024-01-01T00:00:00.500Z'' 105 120 95 115"] iso_a iso_b
  by (simp add: tickAt_def)

section \<open>Properties of the dashboard\<close>

lemma hasOpenPosition_iff:
  "hasOpenPosition (s\<lparr>agentDecision := Some d\<rparr>)
     \<longleftrightarrow> positionSide d = Some LONG \<and> (\<exists>n. positionSize d = Some n \<and> js_gt n (Finite 0))"
  by (cases "positionSize d") (auto simp: hasOpenPosition_def)

text \<open>
  Claim C5. For every agent decision, whatever its other fields, the \<open>Position\<close>
  block shows an open position if and only if \<open>positionSide\<close> is \<open>LONG\<close> and
  \<open>positionSize\<close> is present and greater than 0; with \<open>LONG\<close> and size 0 it shows
  \<open>No open position\<close>.
\<close>

theorem open_position_rendering:
  "(positionBlock toFixed toLocaleTimeString (s\<lparr>agentDecision := Some d\<rparr>) \<noteq> NoOpenPosition
      \<longleftrightarrow> positionSide d = Some LONG \<and> (\<exists>n. positionSize d = Some n \<and> js_gt n (Finite 0)))
   \<and> positionBlock toFixed toLocaleTimeString
        (s\<lparr>agentDecision := Some (d\<lparr>positionSide := Some LONG, positionSize := Some (Finite 0)\<rparr>)\<rparr>)
      = NoOpenPosition"
proof -
  have shown: "positionBlock toFixed toLocaleTimeString s' = NoOpenPosition \<longleftrightarrow> \<not> hasOpenPosition s'"
    for s'
    by (simp add: positionBlock_def Let_def)
  show ?thesis
    by (simp add: shown hasOpenPosition_iff)
qed

text \<open>
  Claim C7. When the force-update request fails (the fetch rejects, or the response is
  not ok), the continuation of the handler puts exactly one entry in front of the log and
  changes nothing else: the connection flag stays, and no request is sent again. The
  entry is the text \<open>[now] ERROR: Force update failed - \<close> followed by the first 40
  characters of \<open>String(error)\<close>: the clock stamp in brackets comes first, as in every
  log entry, and \<open>ERROR:\<close> is the prefix of the message after it. The handler as a whole
  sends one request; the entry \<open>[now] Requesting force update...\<close> that it logs on
  sending is the only other entry it adds.
\<close>

theorem force_update_failure_logged:
  "handleForceUpdate_settle now (Rejected e) s
     = s\<lparr>logs := (''['' @ now @ ''] ERROR: Force update failed - '' @ take 40 e)
                  # take 99 (logs s)\<rparr>
   \<and> handleForceUpdate_settle now (Responded False body) s
     = s\<lparr>logs := (''['' @ now @ ''] ERROR: Force update failed - Error: Force update failed'')
                  # take 99 (logs s)\<rparr>
   \<and> isConnected (handleForceUpdate_settle now (Rejected e) s) = isConnected s
   \<and> isConnected (handleForceUpdate_settle now (Responded False body) s) = isConnected s
   \<and> sent (handleForceUpdate_settle now outcome s) = sent s
   \<and> sent (handleForceUpdate sent_at failed_at outcome s)
     = sent s @ [POST ''http://localhost:8081/api/market/force-update'']
   \<and> logs (handleForceUpdate sent_at failed_at (Rejected e) s)
     = (''['' @ failed_at @ ''] ERROR: Force update failed - '' @ take 40 e)
       # (''['' @ sent_at @ ''] Requesting force update...'') # take 98 (logs s)"
  by (cases outcome)
     (simp_all add: handleForceUpdate_def handleForceUpdate_settle_def handleForceUpdate_start_def
        addLog_def logEntry_def String_Error_def Let_def take_Cons')

theorem force_update_failure_logged_witness:
  "logs (handleForceUpdate_settle ''10:00:07''
           (Responded False (Inl []) :: unit FetchOutcome) initial)
     = [''[10:00:07] ERROR: Force update failed - Error: Force update failed'']
   \<and> logs (handleForceUpdate_settle ''10:00:07''
             (Rejected ''TypeError: NetworkError when attempting to fetch resource.''
                :: unit FetchOutcome)
             initial)
     = [''[10:00:07] ERROR: Force update failed - TypeError: NetworkError when attempting '']
   \<and> isConnected (handleForceUpdate_settle ''10:00:07''
             (Rejected ''TypeError: NetworkError when attempting to fetch resource.''
                :: unit FetchOutcome)
             (initial\<lparr>isConnected := True\<rparr>))"
proof -
  have rejected: "handleForceUpdate_settle now (Rejected e :: unit FetchOutcome) s
      = s\<lparr>logs := (''['' @ now @ ''] ERROR: Force update failed - '' @ take 40 e)
                   # take 99 (logs s)\<rparr>" for now e s
    by (rule force_update_failure_logged [THEN conjunct1])
  have not_ok: "handleForceUpdate_settle now (Responded False body :: unit FetchOutcome) s
      = s\<lparr>logs := (''['' @ now @ ''] ERROR: Force update failed - Error: Force update failed'')
                   # take 99 (logs s)\<rparr>" for now body s
    by (rule force_update_failure_logged [THEN conjunct2, THEN conjunct1])
  show ?thesis
    by (simp add: rejected not_ok initial_def)
qed

lemma logs_addLog: "logs (addLog now msg s) = logEntry now msg # take 99 (logs s)"
  by (simp add: addLog_def)

text \<open>
  Claim C8. A call of \<open>addLog\<close> puts the new entry, stamped with the clock reading of
  the call, in front of the first 99 entries. After any sequence of calls on a log of at
  most 100 entries, the log is the first 100 of the new entries, most recent first,
  followed by the old ones; it never has more than 100 entries.
\<close>

theorem log_capped_recent_first:
  assumes "length (logs s) \<le> 100"
  shows "logs (foldl (\<lambda>s (now, msg). addLog now msg s) s calls)
           = take 100 (rev (map (\<lambda>(now, msg). logEntry now msg) calls) @ logs s)
         \<and> length (logs (foldl (\<lambda>s (now, msg). addLog now msg s) s calls)) \<le> 100
         \<and> logs (addLog now msg s) = logEntry now msg # take 99 (logs s)"
proof -
  have "logs (foldl (\<lambda>s (now, msg). addLog now msg s) s calls)
           = take 100 (rev (map (\<lambda>(now, msg). logEntry now msg) calls) @ logs s)"
  proof (induction calls rule: rev_induct)
    case Nil
    from assms show ?case by simp
  next
    case (snoc c calls)
    obtain t m where c: "c = (t, m)" by (cases c)
    show ?case
      unfolding c by (simp add: logs_addLog snoc.IH take_Cons' min_def)
  qed
  then show ?thesis
    by (simp add: logs_addLog)
qed

theorem log_capped_recent_first_witness:
  "length (logs initial) \<le> 100
   \<and> logs (foldl (\<lambda>s (now, msg). addLog now msg s) initial
             [(''10:00:00'', ''WebSocket connected''), (''10:00:05'', ''Requesting force update...'')])
     = [''[10:00:05] Requesting force update...'', ''[10:00:00] WebSocket connected'']"
  using log_capped_recent_first [of initial
      "[(''10:00:00'', ''WebSocket connected''), (''10:00:05'', ''Requesting force update...'')]"]
  by (simp add: initial_def logEntry_def)

lemma distinct_after_message:
  assumes "distinct (map timestamp buf)"
  shows "distinct (map timestamp (filter (\<lambda>d. timestamp d \<noteq> timestamp tick) buf @ [tick]))"
proof -
  have "distinct (map timestamp (filter (\<lambda>d. timestamp d \<noteq> timestamp tick) buf))"
    using assms by (rule distinct_map_filter)
  then show ?thesis by auto
qed

lemma logs_only: "chartData_state (addLog now msg s) = chartData_state s"
  by (simp add: addLog_def)

lemma step_keeps_unique:
  assumes "distinct (map timestamp (chartData_state s))"
  shows "distinct (map timestamp (chartData_state (step toFixed s e)))"
proof (cases e)
  case (MarketMessage message)
  then show ?thesis
    using assms distinct_after_message [OF assms]
    by (cases message) (simp_all add: onMarketMessage_def Let_def)
next
  case (FetchMarketSettle now outcome)
  then show ?thesis
    using assms
    by (auto simp: fetchInitialMarketData_settle_def logs_only Let_def
        split: FetchOutcome.splits sum.splits)
next
  case (FetchDecisionSettle now outcome)
  then show ?thesis
    using assms
    by (auto simp: fetchLastAgentDecision_settle_def logs_only Let_def
        split: FetchOutcome.splits sum.splits)
next
  case (ForceUpdateSettle now outcome)
  then show ?thesis
    using assms
    by (auto simp: handleForceUpdate_settle_def logs_only Let_def split: FetchOutcome.splits)
next
  case (DecisionMessage now message)
  then show ?thesis
    using assms by (cases message) (simp_all add: onDecisionMessage_def logs_only Let_def)
qed (use assms in \<open>simp_all add: fetchInitialMarketData_start_def fetchLastAgentDecision_start_def
      handleForceUpdate_start_def onConnect_def onDisconnect_def onStompError_def logs_only\<close>)

lemma foldl_step_keeps_unique:
  "distinct (map timestamp (chartData_state s)) \<Longrightarrow>
   distinct (map timestamp (chartData_state (foldl (step toFixed) s es)))"
  by (induction es arbitrary: s) (simp_all add: step_keeps_unique)

text \<open>
  Claim C9. A market message removes the buffered ticks with the timestamp string of the
  incoming tick and appends the tick. In every state the dashboard reaches from its
  initial state, by whatever events in whatever order, no two ticks of the buffer have
  the same timestamp string.
\<close>

theorem buffer_timestamps_unique:
  "chartData_state (onMarketMessage (Some tick) s)
     = filter (\<lambda>d. timestamp d \<noteq> timestamp tick) (chartData_state s) @ [tick]
   \<and> distinct (map timestamp (chartData_state (run toFixed events)))"
proof -
  have "distinct (map timestamp (chartData_state initial))"
    by (simp add: initial_def)
  then show ?thesis
    unfolding run_def by (simp add: foldl_step_keeps_unique onMarketMessage_def)
qed

text \<open>
  Claim C10. Without a current tick, and for every current tick whose \<open>open\<close> is 0, the
  percent change is exactly 0, and the header shows \<open>(0).toFixed(2)\<close> followed by \<open>%\<close>,
  whatever the rounding of the platform: no arithmetic result reaches the value.
\<close>

theorem percentChange_guarded:
  "percentChange toDouble (s\<lparr>currentTick := None\<rparr>) = Finite 0
   \<and> percentChange toDouble (s\<lparr>currentTick := Some (t\<lparr>tick_open := Finite 0\<rparr>)\<rparr>) = Finite 0
   \<and> percentChangeText toDouble toFixed (s\<lparr>currentTick := None\<rparr>)
       = toFixed (Finite 0) 2 @ ''%''
   \<and> percentChangeText toDouble toFixed
         (s\<lparr>currentTick := Some (t\<lparr>tick_open := Finite 0\<rparr>)\<rparr>)
       = toFixed (Finite 0) 2 @ ''%''"
  by (simp add: percentChange_def percentChangeText_def)

text \<open>What the division gives at \<open>open = 0\<close> when it is not guarded.\<close>

lemma unguarded_division:
  "js_mul toDouble (js_div toDouble (Finite 105) (Finite 0)) (Finite 100) = PosInfinity
   \<and> js_mul toDouble (js_div toDouble (Finite 0) (Finite 0)) (Finite 100) = NaN"
  by (simp add: signed_infinity_def)

end
